theory Spec2Isabelle
  imports Main "HOL-Library.Word"
begin

section \<open>Values\<close>

text \<open>
  The Python values that \<open>pyquery\<close> (src/jello/lib.py) handles: the JSON domain produced by
  \<open>json.loads\<close> (None, bool, int, float, str, list, dict with string keys, in insertion
  order), the \<open>DotMap\<close> wrapper of a dict, and bound methods (the only values of this model
  that carry a \<open>__self__\<close> attribute). A float is carried as its 64-bit pattern; the code
  under study never computes with it.
\<close>

datatype pyval =
    VNone
  | VBool bool
  | VInt int
  | VFloat "64 word"
  | VStr string
  | VList "pyval list"
  | VDict "(string \<times> pyval) list"
  | VDotMap "(string \<times> pyval) list"
  | VMethod string pyval

datatype error =
    FileNotFoundError
  | AttributeError
  | IndexError
  | NameError
  | KeyError
  | CompileError
  | ValueError string
  | HostError string

text \<open>\<open>isinstance(x, bool)\<close>, \<open>isinstance(x, dict)\<close>, \<open>isinstance(x, DotMap)\<close> and
  \<open>hasattr(x, '__self__')\<close>; \<open>isinstance(x, list)\<close> is a match on \<open>VList\<close>.\<close>

fun isinstance_bool :: "pyval \<Rightarrow> bool" where
  "isinstance_bool (VBool b) = True"
| "isinstance_bool v = False"

fun isinstance_dict :: "pyval \<Rightarrow> bool" where
  "isinstance_dict (VDict kvs) = True"
| "isinstance_dict v = False"

fun isinstance_DotMap :: "pyval \<Rightarrow> bool" where
  "isinstance_DotMap (VDotMap kvs) = True"
| "isinstance_DotMap v = False"

fun hasattr_self :: "pyval \<Rightarrow> bool" where
  "hasattr_self (VMethod name self) = True"
| "hasattr_self v = False"

subsection \<open>The DotMap adapter\<close>

text \<open>
  Modelled from the spec: the module \<open>jello.dotmap\<close> (class \<open>DotMap\<close>, its constructor and
  its method \<open>toDict\<close>) is imported by lib.py but is not among the sources. Following
  section 4.1 of the specification, the constructor wraps a mapping and, recursively, the
  mappings below it (also those that are elements of sequences); \<open>toDict\<close> converts a node,
  recursively, back to plain values.
\<close>

fun DotMap :: "pyval \<Rightarrow> pyval"
  and DotMap_list :: "pyval list \<Rightarrow> pyval list"
  and DotMap_items :: "(string \<times> pyval) list \<Rightarrow> (string \<times> pyval) list" where
  "DotMap (VDict kvs) = VDotMap (DotMap_items kvs)"
| "DotMap (VList xs) = VList (DotMap_list xs)"
| "DotMap VNone = VNone"
| "DotMap (VBool b) = VBool b"
| "DotMap (VInt i) = VInt i"
| "DotMap (VFloat f) = VFloat f"
| "DotMap (VStr s) = VStr s"
| "DotMap (VDotMap kvs) = VDotMap kvs"
| "DotMap (VMethod n s) = VMethod n s"
| "DotMap_list [] = []"
| "DotMap_list (x # xs) = DotMap x # DotMap_list xs"
| "DotMap_items [] = []"
| "DotMap_items ((k, v) # kvs) = (k, DotMap v) # DotMap_items kvs"

fun toDict :: "pyval \<Rightarrow> pyval"
  and toDict_list :: "pyval list \<Rightarrow> pyval list"
  and toDict_items :: "(string \<times> pyval) list \<Rightarrow> (string \<times> pyval) list" where
  "toDict (VDotMap kvs) = VDict (toDict_items kvs)"
| "toDict (VDict kvs) = VDict (toDict_items kvs)"
| "toDict (VList xs) = VList (toDict_list xs)"
| "toDict VNone = VNone"
| "toDict (VBool b) = VBool b"
| "toDict (VInt i) = VInt i"
| "toDict (VFloat f) = VFloat f"
| "toDict (VStr s) = VStr s"
| "toDict (VMethod n s) = VMethod n s"
| "toDict_list [] = []"
| "toDict_list (x # xs) = toDict x # toDict_list xs"
| "toDict_items [] = []"
| "toDict_items ((k, v) # kvs) = (k, toDict v) # toDict_items kvs"

subsection \<open>Output conversion (lib.py, lines 334 to 345)\<close>

definition reserved_message :: string where
  "reserved_message = ''Reserved key name. Use bracket notation to access this key.''"

definition convert_item :: "pyval \<Rightarrow> pyval" where
  "convert_item i = (if isinstance_DotMap i then toDict i else i)"

definition convert_output :: "pyval \<Rightarrow> pyval" where
  "convert_output output =
     (case output of
        VList xs \<Rightarrow> VList (map convert_item xs)
      | VDotMap kvs \<Rightarrow> toDict output
      | _ \<Rightarrow> output)"

definition normalize_output :: "pyval \<Rightarrow> error + pyval" where
  "normalize_output output =
     (let output' = convert_output output
      in if hasattr_self output' then Inl (ValueError reserved_message) else Inr output')"

section \<open>Options and their validation\<close>

text \<open>
  The class \<open>opts\<close> of \<open>jello.options\<close> is process-wide state that \<open>pyquery\<close> reads and
  writes. Its declaration (and so the initial values of its attributes) is not among the
  sources: the option state is an argument of the model. An attribute holds any Python
  value; \<open>VNone\<close> is the unset option. The selector of \<open>opts.mono\<close> is named \<open>mono_opt\<close>,
  since \<open>mono\<close> is a constant of HOL.
\<close>

record opts =
  initialize :: bool
  compact :: pyval
  raw :: pyval
  lines :: pyval
  nulls :: pyval
  mono_opt :: pyval
  schema :: pyval
  keyname_color :: pyval
  keyword_color :: pyval
  number_color :: pyval
  string_color :: pyval
  arrayid_color :: pyval
  arraybracket_color :: pyval

text \<open>The two messages that the validation prints.\<close>

datatype warning = OptionsWarning | ColorsWarning

definition valid_colors :: "string list" where
  "valid_colors =
     [''black'', ''red'', ''green'', ''yellow'', ''blue'', ''magenta'', ''cyan'', ''gray'',
      ''brightblack'', ''brightred'', ''brightgreen'', ''brightyellow'', ''brightblue'',
      ''brightmagenta'', ''brightcyan'', ''white'']"

text \<open>\<open>color_config in valid_colors\<close>: a value equals a string of the list only if it is
  that string.\<close>

fun in_valid_colors :: "pyval \<Rightarrow> bool" where
  "in_valid_colors (VStr s) = (s \<in> set valid_colors)"
| "in_valid_colors v = False"

text \<open>Lines 310 and 318: the chained assignments of \<open>None\<close>.\<close>

definition unset_options :: "opts \<Rightarrow> opts" where
  "unset_options ops =
     ops\<lparr>compact := VNone, raw := VNone, lines := VNone, nulls := VNone,
         mono_opt := VNone, schema := VNone\<rparr>"

definition unset_colors :: "opts \<Rightarrow> opts" where
  "unset_colors ops =
     ops\<lparr>keyname_color := VNone, keyword_color := VNone, number_color := VNone,
         string_color := VNone, arrayid_color := VNone, arraybracket_color := VNone\<rparr>"

text \<open>
  Lines 308 to 311: the loop runs over the list of the six values as they were when the
  loop started; the second component is \<open>warn_options\<close>.
\<close>

fun check_options :: "pyval list \<Rightarrow> opts \<times> bool \<Rightarrow> opts \<times> bool" where
  "check_options [] (ops, warn_options) = (ops, warn_options)"
| "check_options (option # rest) (ops, warn_options) =
     (if \<not> isinstance_bool option
      then check_options rest (unset_options ops, True)
      else check_options rest (ops, warn_options))"

text \<open>Lines 313 to 319; the second component is \<open>warn_colors\<close>.\<close>

fun check_colors :: "pyval list \<Rightarrow> opts \<times> bool \<Rightarrow> opts \<times> bool" where
  "check_colors [] (ops, warn_colors) = (ops, warn_colors)"
| "check_colors (color_config # rest) (ops, warn_colors) =
     (if \<not> in_valid_colors color_config \<and> color_config \<noteq> VNone
      then check_colors rest (unset_colors ops, True)
      else check_colors rest (ops, warn_colors))"

definition option_values :: "opts \<Rightarrow> pyval list" where
  "option_values ops = [compact ops, raw ops, lines ops, nulls ops, mono_opt ops, schema ops]"

definition color_values :: "opts \<Rightarrow> pyval list" where
  "color_values ops =
     [keyname_color ops, keyword_color ops, number_color ops,
      string_color ops, arrayid_color ops, arraybracket_color ops]"

text \<open>
  Lines 305 to 326, one run of the validation: the state is the option state and the
  warnings printed so far.
\<close>

definition validate :: "opts \<times> warning list \<Rightarrow> opts \<times> warning list" where
  "validate st =
     (case st of (ops, printed) \<Rightarrow>
        (case check_options (option_values ops) (ops, False) of (ops1, warn_options) \<Rightarrow>
           (case check_colors (color_values ops1) (ops1, False) of (ops2, warn_colors) \<Rightarrow>
              (ops2,
               printed @ (if warn_options then [OptionsWarning] else [])
                       @ (if warn_colors then [ColorsWarning] else [])))))"

section \<open>Scripts\<close>

text \<open>
  The parser (\<open>ast.parse\<close>) and the evaluator (\<open>compile\<close>, \<open>exec\<close>, \<open>eval\<close>) belong to
  Python, not to this repository. A script enters the model parsed, as the list of its
  top-level nodes; expressions are of any type \<open>'e\<close>, and the evaluator is an argument of
  the model. What the code itself reads of a node is modelled: whether it is an
  \<open>ast.Assign\<close>, whether its first target has an \<open>id\<close> (it is an \<open>ast.Name\<close>), and its field
  \<open>value\<close>. \<open>Assign\<close>, \<open>AugAssign\<close>, \<open>AnnAssign\<close>, \<open>Return\<close> and \<open>Expr\<close> have that field (for
  \<open>x: int\<close> and a bare \<open>return\<close> it holds \<open>None\<close>); \<open>NoValue\<close> stands for every other kind
  of statement (\<open>pass\<close>, \<open>del\<close>, \<open>import\<close>, \<open>for\<close>, \<open>while\<close>, \<open>if\<close>, \<open>def\<close>, ...), none of
  which has it (the \<open>type\<close> statement of Python 3.12, which has one, is left out).
\<close>

datatype target = TName string | TOther

datatype 'e stmt =
    Assign target "target list" 'e
  | AugAssign target 'e
  | AnnAssign target "'e option"
  | Return "'e option"
  | Expr 'e
  | NoValue

type_synonym scope = "string \<rightharpoonup> pyval"

type_synonym 'e evaluator = "'e \<Rightarrow> scope \<Rightarrow> error + pyval"

type_synonym 'e executor = "'e stmt \<Rightarrow> scope \<Rightarrow> error + scope"

text \<open>\<open>node.value\<close>: \<open>None\<close> when the node has no such attribute (AttributeError).\<close>

fun node_value :: "'e stmt \<Rightarrow> 'e option option" where
  "node_value (Assign t ts e) = Some (Some e)"
| "node_value (AugAssign t e) = Some (Some e)"
| "node_value (AnnAssign t v) = Some v"
| "node_value (Return v) = Some v"
| "node_value (Expr e) = Some (Some e)"
| "node_value NoValue = None"

fun is_expression :: "'e stmt \<Rightarrow> bool" where
  "is_expression (Expr e) = True"
| "is_expression s = False"

subsection \<open>Reading the options of the initialization file (lines 277 to 326)\<close>

definition option_names :: "string list" where
  "option_names =
     [''compact'', ''raw'', ''lines'', ''nulls'', ''mono'', ''schema'',
      ''keyname_color'', ''keyword_color'', ''number_color'', ''string_color'',
      ''arrayid_color'', ''arraybracket_color'']"

definition set_option :: "string \<Rightarrow> pyval \<Rightarrow> opts \<Rightarrow> opts" where
  "set_option name v ops =
     (if name = ''compact'' then ops\<lparr>compact := v\<rparr>
      else if name = ''raw'' then ops\<lparr>raw := v\<rparr>
      else if name = ''lines'' then ops\<lparr>lines := v\<rparr>
      else if name = ''nulls'' then ops\<lparr>nulls := v\<rparr>
      else if name = ''mono'' then ops\<lparr>mono_opt := v\<rparr>
      else if name = ''schema'' then ops\<lparr>schema := v\<rparr>
      else if name = ''keyname_color'' then ops\<lparr>keyname_color := v\<rparr>
      else if name = ''keyword_color'' then ops\<lparr>keyword_color := v\<rparr>
      else if name = ''number_color'' then ops\<lparr>number_color := v\<rparr>
      else if name = ''string_color'' then ops\<lparr>string_color := v\<rparr>
      else if name = ''arrayid_color'' then ops\<lparr>arrayid_color := v\<rparr>
      else if name = ''arraybracket_color'' then ops\<lparr>arraybracket_color := v\<rparr>
      else ops)"

text \<open>
  Lines 279 to 302: the twelve \<open>if expr.targets[0].id == name\<close> in their order. Each one
  that matches evaluates the right-hand side and stores the value; an exception of the
  evaluation leaves the loop.
\<close>

fun assign_options ::
  "'e evaluator \<Rightarrow> scope \<Rightarrow> string \<Rightarrow> 'e \<Rightarrow> string list \<Rightarrow> opts \<Rightarrow> error + opts" where
  "assign_options ev sc ident e [] ops = Inr ops"
| "assign_options ev sc ident e (name # names) ops =
     (if ident = name
      then (case ev e sc of
              Inl err \<Rightarrow> Inl err
            | Inr v \<Rightarrow> assign_options ev sc ident e names (set_option name v ops))
      else assign_options ev sc ident e names ops)"

text \<open>
  The loop of line 277. A first target without \<open>id\<close> raises AttributeError at line 279.
  The validation of lines 304 to 326 is inside the branch of line 278: it runs after every
  assignment statement. The result holds the state at the end, or at the exception.
\<close>

fun read_options ::
  "'e evaluator \<Rightarrow> scope \<Rightarrow> 'e stmt list \<Rightarrow> opts \<times> warning list
     \<Rightarrow> (opts \<times> warning list) \<times> error option" where
  "read_options ev sc [] st = (st, None)"
| "read_options ev sc (Assign (TName ident) ts e # rest) (ops, printed) =
     (case assign_options ev sc ident e option_names ops of
        Inl err \<Rightarrow> ((ops, printed), Some err)
      | Inr ops' \<Rightarrow> read_options ev sc rest (validate (ops', printed)))"
| "read_options ev sc (Assign TOther ts e # rest) st = (st, Some AttributeError)"
| "read_options ev sc (expr # rest) st = read_options ev sc rest st"

subsection \<open>Running the query (lines 328 to 345)\<close>

text \<open>
  \<open>exec\<close> of a module runs its top-level statements in order; the first exception ends it.
\<close>

fun exec_block :: "'e executor \<Rightarrow> 'e stmt list \<Rightarrow> scope \<Rightarrow> error + scope" where
  "exec_block ex [] sc = Inr sc"
| "exec_block ex (s # ss) sc =
     (case ex s sc of Inl err \<Rightarrow> Inl err | Inr sc' \<Rightarrow> exec_block ex ss sc')"

text \<open>
  Line 330: \<open>block.body.pop()\<close> raises IndexError on the empty list, and \<open>.value\<close> raises
  AttributeError on a node without that field; both happen before line 331 executes
  anything. \<open>compile\<close> at line 332 rejects an \<open>ast.Expression\<close> whose body is \<open>None\<close>.
\<close>

definition run_query ::
  "'e executor \<Rightarrow> 'e evaluator \<Rightarrow> scope \<Rightarrow> 'e stmt list \<Rightarrow> error + pyval" where
  "run_query ex ev sc block =
     (if block = [] then Inl IndexError
      else (case node_value (last block) of
              None \<Rightarrow> Inl AttributeError
            | Some final \<Rightarrow>
                (case exec_block ex (butlast block) sc of
                   Inl err \<Rightarrow> Inl err
                 | Inr sc' \<Rightarrow>
                     (case final of
                        None \<Rightarrow> Inl CompileError
                      | Some e \<Rightarrow>
                          (case ev e sc' of
                             Inl err \<Rightarrow> Inl err
                           | Inr output \<Rightarrow> normalize_output output)))))"

text \<open>Lines 248 to 256: the value bound to \<open>_\<close>.\<close>

definition wrap_input :: "pyval \<Rightarrow> pyval" where
  "wrap_input data =
     (case data of
        VList xs \<Rightarrow> VList (map (\<lambda>i. if isinstance_dict i then DotMap i else i) xs)
      | VDict kvs \<Rightarrow> DotMap data
      | _ \<Rightarrow> data)"

text \<open>
  Lines 258 to 273. The second argument is the parsed content of the initialization file,
  \<open>None\<close> when the file does not exist. Without \<open>opts.initialize\<close> the text \<open>jelloconf\<close> is
  empty.
\<close>

definition load_conf :: "opts \<Rightarrow> 'e stmt list option \<Rightarrow> error + 'e stmt list" where
  "load_conf ops conf_file =
     (if initialize ops
      then (case conf_file of None \<Rightarrow> Inl FileNotFoundError | Some body \<Rightarrow> Inr body)
      else Inr [])"

text \<open>
  \<open>pyquery\<close>. The arguments beyond \<open>data\<close> and \<open>query\<close> are what the function reads from its
  surroundings: the evaluator, the names visible to \<open>exec\<close> and \<open>eval\<close> besides \<open>_\<close>, the
  initialization file and the option state. Line 273 concatenates the two texts; the
  model concatenates their top-level nodes, which is what \<open>ast.parse\<close> returns for the
  concatenation when the file ends with a line break. The result is the option state and
  the warnings printed, with the value returned or the exception raised.
\<close>

definition pyquery ::
  "'e executor \<Rightarrow> 'e evaluator \<Rightarrow> scope \<Rightarrow> 'e stmt list option \<Rightarrow> opts
     \<Rightarrow> pyval \<Rightarrow> 'e stmt list \<Rightarrow> (opts \<times> warning list) \<times> (error + pyval)" where
  "pyquery ex ev names conf_file ops data query =
     (let sc = names(''_'' \<mapsto> wrap_input data)
      in (case load_conf ops conf_file of
            Inl err \<Rightarrow> ((ops, []), Inl err)
          | Inr jelloconf \<Rightarrow>
              (case read_options ev sc jelloconf (ops, []) of
                 (st, Some err) \<Rightarrow> (st, Inl err)
               | (st, None) \<Rightarrow> (st, run_query ex ev sc (jelloconf @ query)))))"

section \<open>Vocabulary of the properties\<close>

text \<open>The plain JSON domain: no wrapped node and no method anywhere in the value.\<close>

fun plain :: "pyval \<Rightarrow> bool"
  and plain_list :: "pyval list \<Rightarrow> bool"
  and plain_items :: "(string \<times> pyval) list \<Rightarrow> bool" where
  "plain VNone = True"
| "plain (VBool b) = True"
| "plain (VInt i) = True"
| "plain (VFloat f) = True"
| "plain (VStr s) = True"
| "plain (VList xs) = plain_list xs"
| "plain (VDict kvs) = plain_items kvs"
| "plain (VDotMap kvs) = False"
| "plain (VMethod n s) = False"
| "plain_list [] = True"
| "plain_list (x # xs) = (plain x \<and> plain_list xs)"
| "plain_items [] = True"
| "plain_items ((k, v) # kvs) = (plain v \<and> plain_items kvs)"

text \<open>No wrapped node among the data of a value (its elements and its fields, at any
  depth).\<close>

fun unwrapped :: "pyval \<Rightarrow> bool"
  and unwrapped_list :: "pyval list \<Rightarrow> bool"
  and unwrapped_items :: "(string \<times> pyval) list \<Rightarrow> bool" where
  "unwrapped (VDotMap kvs) = False"
| "unwrapped (VList xs) = unwrapped_list xs"
| "unwrapped (VDict kvs) = unwrapped_items kvs"
| "unwrapped VNone = True"
| "unwrapped (VBool b) = True"
| "unwrapped (VInt i) = True"
| "unwrapped (VFloat f) = True"
| "unwrapped (VStr s) = True"
| "unwrapped (VMethod n s) = True"
| "unwrapped_list [] = True"
| "unwrapped_list (x # xs) = (unwrapped x \<and> unwrapped_list xs)"
| "unwrapped_items [] = True"
| "unwrapped_items ((k, v) # kvs) = (unwrapped v \<and> unwrapped_items kvs)"

fun is_scalar :: "pyval \<Rightarrow> bool" where
  "is_scalar VNone = True"
| "is_scalar (VBool b) = True"
| "is_scalar (VInt i) = True"
| "is_scalar (VFloat f) = True"
| "is_scalar (VStr s) = True"
| "is_scalar v = False"

text \<open>The exceptions of line 330, raised when the script has no last node or the last
  node has no value: the code's form of the specification's shape error.\<close>

fun shape_error :: "error \<Rightarrow> bool" where
  "shape_error IndexError = True"
| "shape_error AttributeError = True"
| "shape_error e = False"

text \<open>The states of one validation run in which a boolean option, or a color, is set to
  a value that is not allowed.\<close>

definition bad_option :: "pyval \<Rightarrow> bool" where
  "bad_option v = (\<not> isinstance_bool v \<and> v \<noteq> VNone)"

definition bad_color :: "pyval \<Rightarrow> bool" where
  "bad_color v = (\<not> in_valid_colors v \<and> v \<noteq> VNone)"

definition count_warnings :: "warning \<Rightarrow> warning list \<Rightarrow> nat" where
  "count_warnings w printed = length (filter (\<lambda>x. x = w) printed)"

section \<open>A fragment of the host language\<close>

text \<open>
  A small evaluator for concrete scripts: constants, names, attribute access, subscripts
  and list displays, with assignments to names and expression statements. Statements
  and values outside the fragment end in \<open>HostError\<close>.

  Modelled from the spec: attribute access on a \<open>DotMap\<close> built with
  \<open>_dynamic=False, _prevent_method_masking=True\<close> (\<open>jello.dotmap\<close> is not among the
  sources). By section 3 of the specification, a reserved accessor name read as an
  attribute yields the accessor itself, any other name is looked up as a key and its
  absence is a lookup error; explicit key-indexing reads the data.
\<close>

datatype expr =
    Constant pyval
  | Name string
  | Attribute expr string
  | Subscript expr expr
  | ListDisplay "expr list"

definition reserved_names :: "string list" where
  "reserved_names =
     [''toDict'', ''items'', ''keys'', ''values'', ''get'', ''pop'', ''popitem'',
      ''clear'', ''copy'', ''update'', ''setdefault'']"

fun py_getattr :: "pyval \<Rightarrow> string \<Rightarrow> error + pyval" where
  "py_getattr (VDotMap kvs) a =
     (if a \<in> set reserved_names then Inr (VMethod a (VDotMap kvs))
      else (case map_of kvs a of None \<Rightarrow> Inl KeyError | Some v \<Rightarrow> Inr v))"
| "py_getattr v a = Inl (HostError ''attribute of a plain value'')"

definition py_getitem :: "pyval \<Rightarrow> pyval \<Rightarrow> error + pyval" where
  "py_getitem v key =
     (case (v, key) of
        (VDotMap kvs, VStr k) \<Rightarrow> (case map_of kvs k of None \<Rightarrow> Inl KeyError | Some x \<Rightarrow> Inr x)
      | (VDict kvs, VStr k) \<Rightarrow> (case map_of kvs k of None \<Rightarrow> Inl KeyError | Some x \<Rightarrow> Inr x)
      | (VList xs, VInt i) \<Rightarrow>
          (if 0 \<le> i \<and> i < int (length xs) then Inr (xs ! nat i)
           else if i < 0 \<and> - int (length xs) \<le> i then Inr (xs ! nat (int (length xs) + i))
           else Inl IndexError)
      | _ \<Rightarrow> Inl (HostError ''subscript outside the fragment''))"

fun py_eval :: "expr \<Rightarrow> scope \<Rightarrow> error + pyval"
  and py_eval_list :: "expr list \<Rightarrow> scope \<Rightarrow> error + pyval list" where
  "py_eval (Constant v) sc = Inr v"
| "py_eval (Name n) sc = (case sc n of None \<Rightarrow> Inl NameError | Some v \<Rightarrow> Inr v)"
| "py_eval (Attribute e a) sc =
     (case py_eval e sc of Inl err \<Rightarrow> Inl err | Inr v \<Rightarrow> py_getattr v a)"
| "py_eval (Subscript e k) sc =
     (case py_eval e sc of
        Inl err \<Rightarrow> Inl err
      | Inr v \<Rightarrow> (case py_eval k sc of Inl err \<Rightarrow> Inl err | Inr kv \<Rightarrow> py_getitem v kv))"
| "py_eval (ListDisplay es) sc =
     (case py_eval_list es sc of Inl err \<Rightarrow> Inl err | Inr vs \<Rightarrow> Inr (VList vs))"
| "py_eval_list [] sc = Inr []"
| "py_eval_list (e # es) sc =
     (case py_eval e sc of
        Inl err \<Rightarrow> Inl err
      | Inr v \<Rightarrow> (case py_eval_list es sc of Inl err \<Rightarrow> Inl err | Inr vs \<Rightarrow> Inr (v # vs)))"

fun py_exec :: "expr stmt \<Rightarrow> scope \<Rightarrow> error + scope" where
  "py_exec (Assign (TName x) [] e) sc =
     (case py_eval e sc of Inl err \<Rightarrow> Inl err | Inr v \<Rightarrow> Inr (sc(x \<mapsto> v)))"
| "py_exec (Expr e) sc =
     (case py_eval e sc of Inl err \<Rightarrow> Inl err | Inr v \<Rightarrow> Inr sc)"
| "py_exec s sc = Inl (HostError ''statement outside the fragment'')"

text \<open>An option state with every option unset, and one with the six flags \<open>False\<close>.\<close>

definition opts_unset :: opts where
  "opts_unset =
     \<lparr>initialize = True, compact = VNone, raw = VNone, lines = VNone, nulls = VNone,
      mono_opt = VNone, schema = VNone, keyname_color = VNone, keyword_color = VNone,
      number_color = VNone, string_color = VNone, arrayid_color = VNone,
      arraybracket_color = VNone\<rparr>"

definition opts_false :: opts where
  "opts_false =
     \<lparr>initialize = True, compact = VBool False, raw = VBool False, lines = VBool False,
      nulls = VBool False, mono_opt = VBool False, schema = VBool False,
      keyname_color = VNone, keyword_color = VNone, number_color = VNone,
      string_color = VNone, arrayid_color = VNone, arraybracket_color = VNone\<rparr>"

section \<open>Auxiliary facts\<close>

lemma convert_item_plain: "plain x \<Longrightarrow> convert_item x = x"
  by (cases x) (simp_all add: convert_item_def)

lemma map_convert_item_plain: "plain_list xs \<Longrightarrow> map convert_item xs = xs"
  by (induction xs) (simp_all add: convert_item_plain)

lemma unwrapped_toDict:
  "unwrapped (toDict v)" "unwrapped_list (toDict_list xs)" "unwrapped_items (toDict_items kvs)"
  by (induction v and xs and kvs rule: toDict_toDict_list_toDict_items.induct) simp_all

lemma normalize_output_VList: "normalize_output (VList xs) = Inr (VList (map convert_item xs))"
  by (simp add: normalize_output_def convert_output_def)

lemma normalize_output_method:
  "hasattr_self v \<Longrightarrow> normalize_output v = Inl (ValueError reserved_message)"
  by (cases v) (simp_all add: normalize_output_def convert_output_def)

lemma normalize_output_scalar: "is_scalar v \<Longrightarrow> normalize_output v = Inr v"
  by (cases v) (simp_all add: normalize_output_def convert_output_def)

lemma wrap_input_scalar: "is_scalar v \<Longrightarrow> wrap_input v = v"
  by (cases v) (simp_all add: wrap_input_def)

lemma run_query_Expr:
  "run_query ex ev sc (body @ [Expr e]) =
     (case exec_block ex body sc of
        Inl err \<Rightarrow> Inl err
      | Inr sc' \<Rightarrow> (case ev e sc' of Inl err \<Rightarrow> Inl err | Inr v \<Rightarrow> normalize_output v))"
  by (simp add: run_query_def split: sum.splits)

lemma pyquery_run:
  assumes "load_conf ops conf_file = Inr jelloconf"
    and "read_options ev (names(''_'' \<mapsto> wrap_input data)) jelloconf (ops, []) = (st, None)"
  shows "pyquery ex ev names conf_file ops data query =
           (st, run_query ex ev (names(''_'' \<mapsto> wrap_input data)) (jelloconf @ query))"
  using assms by (simp add: pyquery_def)

lemma unset_options_idem: "unset_options (unset_options ops) = unset_options ops"
  by (simp add: unset_options_def)

lemma unset_colors_idem: "unset_colors (unset_colors ops) = unset_colors ops"
  by (simp add: unset_colors_def)

text \<open>The loop of lines 308 to 311 resets as soon as one value is not a \<open>bool\<close>; \<open>None\<close>
  is such a value.\<close>

lemma check_options_eq:
  "check_options vs (ops, w) =
     (if list_ex (\<lambda>v. \<not> isinstance_bool v) vs then (unset_options ops, True) else (ops, w))"
proof (induction vs arbitrary: ops w)
  case Nil
  then show ?case by simp
next
  case (Cons v vs)
  then show ?case by (simp add: unset_options_idem)
qed

lemma check_colors_eq:
  "check_colors vs (ops, w) =
     (if list_ex bad_color vs then (unset_colors ops, True) else (ops, w))"
proof (induction vs arbitrary: ops w)
  case Nil
  then show ?case by simp
next
  case (Cons v vs)
  then show ?case by (simp add: unset_colors_idem bad_color_def)
qed

lemma color_values_unset_options: "color_values (unset_options ops) = color_values ops"
  by (simp add: color_values_def unset_options_def)

lemma color_values_unset_colors:
  "color_values (unset_colors ops) = [VNone, VNone, VNone, VNone, VNone, VNone]"
  by (simp add: color_values_def unset_colors_def)

lemma validate_eq:
  "validate (ops, printed) =
     (let ops1 = (if list_ex (\<lambda>v. \<not> isinstance_bool v) (option_values ops)
                  then unset_options ops else ops);
          ops2 = (if list_ex bad_color (color_values ops) then unset_colors ops1 else ops1)
      in (ops2,
          printed
          @ (if list_ex (\<lambda>v. \<not> isinstance_bool v) (option_values ops)
             then [OptionsWarning] else [])
          @ (if list_ex bad_color (color_values ops) then [ColorsWarning] else [])))"
  by (simp add: validate_def check_options_eq check_colors_eq color_values_unset_options Let_def)

lemma read_options_Assign:
  "read_options ev sc (Assign (TName ident) ts e # rest) st =
     (case assign_options ev sc ident e option_names (fst st) of
        Inl err \<Rightarrow> (st, Some err)
      | Inr ops' \<Rightarrow> read_options ev sc rest (validate (ops', snd st)))"
  by (cases st) (simp split: sum.splits)

section \<open>Output normalization\<close>

text \<open>
  Claim C9. Output normalization is idempotent: a value of the plain JSON domain is
  returned unchanged, so normalizing the result again gives the same result.
\<close>

theorem normalize_output_idempotent:
  assumes "plain v"
  shows "normalize_output v = Inr v \<and>
         (case normalize_output v of Inl e \<Rightarrow> Inl e | Inr w \<Rightarrow> normalize_output w)
           = normalize_output v"
proof -
  have "normalize_output v = Inr v"
    using assms
    by (cases v) (simp_all add: normalize_output_def convert_output_def map_convert_item_plain)
  then show ?thesis by simp
qed

theorem normalize_output_idempotent_witness:
  "plain (VList [VInt 1, VDict [(''a'', VStr ''b'')]]) \<and>
   normalize_output (VList [VInt 1, VDict [(''a'', VStr ''b'')]])
     = Inr (VList [VInt 1, VDict [(''a'', VStr ''b'')]])"
  using normalize_output_idempotent [of "VList [VInt 1, VDict [(''a'', VStr ''b'')]]"]
  by simp

text \<open>
  Claim C6. For a list result, normalization returns a list of the same length in the
  same order; an element that is a \<open>DotMap\<close> is replaced by its \<open>toDict\<close>, a plain mapping
  without wrapped nodes, and every other element is returned as it is.
\<close>

theorem normalize_output_list:
  "\<exists>ys. normalize_output (VList xs) = Inr (VList ys) \<and> length ys = length xs \<and>
     (\<forall>i<length xs.
        (isinstance_DotMap (xs ! i) \<longrightarrow>
           ys ! i = toDict (xs ! i) \<and> isinstance_dict (ys ! i) \<and> unwrapped (ys ! i)) \<and>
        (\<not> isinstance_DotMap (xs ! i) \<longrightarrow> ys ! i = xs ! i))"
proof -
  have dm: "isinstance_DotMap x \<Longrightarrow> isinstance_dict (toDict x)" for x
    by (cases x) simp_all
  show ?thesis
    by (rule exI [of _ "map convert_item xs"])
       (simp add: normalize_output_VList convert_item_def dm unwrapped_toDict)
qed

theorem normalize_output_list_witness:
  "normalize_output (VList [VDotMap [(''x'', VInt 1)], VInt 2])
     = Inr (VList [VDict [(''x'', VInt 1)], VInt 2])"
proof -
  obtain ys where r: "normalize_output (VList [VDotMap [(''x'', VInt 1)], VInt 2]) = Inr (VList ys)"
    and len: "length ys = 2"
    and el: "\<forall>i<2.
        (isinstance_DotMap ([VDotMap [(''x'', VInt 1)], VInt 2] ! i) \<longrightarrow>
           ys ! i = toDict ([VDotMap [(''x'', VInt 1)], VInt 2] ! i)) \<and>
        (\<not> isinstance_DotMap ([VDotMap [(''x'', VInt 1)], VInt 2] ! i) \<longrightarrow>
           ys ! i = [VDotMap [(''x'', VInt 1)], VInt 2] ! i)"
    using normalize_output_list [of "[VDotMap [(''x'', VInt 1)], VInt 2]"] by auto
  from el have "ys ! 0 = VDict [(''x'', VInt 1)]" by (simp add: less_Suc_eq numeral_2_eq_2)
  moreover from el have "ys ! 1 = VInt 2" by (simp add: less_Suc_eq numeral_2_eq_2)
  ultimately have "ys = [VDict [(''x'', VInt 1)], VInt 2]"
    using len by (cases ys; cases "tl ys") (auto simp: numeral_2_eq_2)
  with r show ?thesis by simp
qed

text \<open>
  Claim C10. The check for a reserved accessor looks at the result itself only: a bound
  method that is an element of a list result stays where it is, and the list is returned
  without any error.
\<close>

theorem list_elements_not_checked:
  "\<exists>ys. normalize_output (VList xs) = Inr (VList ys) \<and> length ys = length xs \<and>
     (\<forall>i<length xs. hasattr_self (xs ! i) \<longrightarrow> ys ! i = xs ! i)"
proof -
  have "hasattr_self x \<Longrightarrow> convert_item x = x" for x
    by (cases x) (simp_all add: convert_item_def)
  then show ?thesis
    by (intro exI [of _ "map convert_item xs"]) (simp add: normalize_output_VList)
qed

theorem list_elements_not_checked_witness:
  "snd (pyquery py_exec py_eval Map.empty None (opts_unset\<lparr>initialize := False\<rparr>)
     (VDict [(''toDict'', VInt 1)]) [Expr (ListDisplay [Attribute (Name ''_'') ''toDict''])])
   = Inr (VList [VMethod ''toDict'' (VDotMap [(''toDict'', VInt 1)])])"
proof -
  obtain ys where r: "normalize_output (VList [VMethod ''toDict'' (VDotMap [(''toDict'', VInt 1)])])
      = Inr (VList ys)"
    and len: "length ys = 1"
    and el: "ys ! 0 = VMethod ''toDict'' (VDotMap [(''toDict'', VInt 1)])"
    using list_elements_not_checked [of "[VMethod ''toDict'' (VDotMap [(''toDict'', VInt 1)])]"]
    by auto
  from len el have "ys = [VMethod ''toDict'' (VDotMap [(''toDict'', VInt 1)])]"
    by (cases ys) auto
  with r show ?thesis
    by (simp add: pyquery_def load_conf_def opts_unset_def run_query_def wrap_input_def
        reserved_names_def)
qed

text \<open>
  Claim C5. When the value of the final expression is a bound method (an attribute read
  that met a reserved accessor name), normalization raises the error that tells the
  caller to use bracket notation, and the query returns no value.
\<close>

theorem reserved_name_error:
  assumes "exec_block ex body sc = Inr sc'" and "ev e sc' = Inr v" and "hasattr_self v"
  shows "normalize_output v = Inl (ValueError reserved_message) \<and>
         run_query ex ev sc (body @ [Expr e]) = Inl (ValueError reserved_message)"
  using assms by (simp add: run_query_Expr normalize_output_method)

theorem reserved_name_error_witness:
  "snd (pyquery py_exec py_eval Map.empty None (opts_unset\<lparr>initialize := False\<rparr>)
     (VDict [(''toDict'', VInt 1)]) [Expr (Attribute (Name ''_'') ''toDict'')])
   = Inl (ValueError reserved_message) \<and>
   snd (pyquery py_exec py_eval Map.empty None (opts_unset\<lparr>initialize := False\<rparr>)
     (VDict [(''toDict'', VInt 1)])
     [Expr (Subscript (Name ''_'') (Constant (VStr ''toDict'')))])
   = Inr (VInt 1)"
proof -
  let ?sc = "Map.empty(''_'' \<mapsto> wrap_input (VDict [(''toDict'', VInt 1)]))"
  have "run_query py_exec py_eval ?sc ([] @ [Expr (Attribute (Name ''_'') ''toDict'')])
          = Inl (ValueError reserved_message)"
    using reserved_name_error [of py_exec "[]" ?sc ?sc py_eval "Attribute (Name ''_'') ''toDict''"
        "VMethod ''toDict'' (VDotMap [(''toDict'', VInt 1)])"]
    by (simp add: wrap_input_def reserved_names_def)
  then show ?thesis
    by (simp add: pyquery_def load_conf_def opts_unset_def py_getitem_def wrap_input_def
        run_query_Expr [of _ _ _ "[]", simplified] normalize_output_scalar)
qed

text \<open>
  Claim C7. The empty script fails before anything is executed: \<open>pop\<close> on the empty list
  of nodes raises at line 330, whatever the executor and the evaluator are.
\<close>

theorem empty_script_fails:
  assumes "load_conf ops conf_file = Inr []"
  shows "pyquery ex ev names conf_file ops data [] = ((ops, []), Inl IndexError) \<and>
         shape_error IndexError"
  using assms by (simp add: pyquery_def run_query_def)

theorem empty_script_fails_witness:
  "load_conf opts_unset (Some ([] :: expr stmt list)) = Inr [] \<and>
   pyquery py_exec py_eval Map.empty (Some []) opts_unset (VInt 1) []
     = ((opts_unset, []), Inl IndexError)"
  using empty_script_fails [of opts_unset "Some ([] :: expr stmt list)" py_exec py_eval
      Map.empty "VInt 1"]
  by (simp add: load_conf_def opts_unset_def)

text \<open>
  Claim C8. A scalar is bound to \<open>_\<close> as it is, and the identity query \<open>_\<close> over it
  returns it unchanged.
\<close>

theorem scalar_round_trip:
  assumes "is_scalar v" and "load_conf ops conf_file = Inr []"
  shows "wrap_input v = v \<and>
         pyquery ex py_eval names conf_file ops v [Expr (Name ''_'')] = ((ops, []), Inr v)"
  using assms
  by (simp add: pyquery_def run_query_def wrap_input_scalar normalize_output_scalar)

theorem scalar_round_trip_witness:
  "is_scalar (VStr ''abc'') \<and>
   pyquery py_exec py_eval Map.empty None (opts_unset\<lparr>initialize := False\<rparr>)
     (VStr ''abc'') [Expr (Name ''_'')]
   = ((opts_unset\<lparr>initialize := False\<rparr>, []), Inr (VStr ''abc''))"
  using scalar_round_trip [of "VStr ''abc''" "opts_unset\<lparr>initialize := False\<rparr>" None
      py_exec Map.empty]
  by (simp add: load_conf_def opts_unset_def)

section \<open>Validation of the options\<close>

text \<open>
  One run of the validation resets the six color slots to unset and prints exactly one
  color warning when some slot holds a value that is neither one of the sixteen color
  names nor unset; otherwise it leaves the slots as they are and prints no color warning.
\<close>

lemma validate_colors_run:
  "color_values (fst (validate (ops, printed))) =
     (if list_ex bad_color (color_values ops)
      then [VNone, VNone, VNone, VNone, VNone, VNone] else color_values ops) \<and>
   count_warnings ColorsWarning (snd (validate (ops, printed))) =
     count_warnings ColorsWarning printed
     + (if list_ex bad_color (color_values ops) then 1 else 0)"
  by (simp add: validate_eq Let_def count_warnings_def color_values_unset_colors
      color_values_unset_options)

text \<open>
  Claim C1, evaluated on the code. With \<open>compact\<close> set to \<open>True\<close> and the five other
  flags unset, no flag holds a non-boolean value, yet the validation unsets all six and
  prints the warning: the test of line 309 has no exemption for \<open>None\<close>, which the test
  of line 317 has.
\<close>

theorem unset_option_triggers_reset:
  "\<not> list_ex bad_option (option_values (opts_unset\<lparr>compact := VBool True\<rparr>)) \<and>
   validate (opts_unset\<lparr>compact := VBool True\<rparr>, []) = (opts_unset, [OptionsWarning]) \<and>
   pyquery py_exec py_eval Map.empty
     (Some [Assign (TName ''compact'') [] (Constant (VBool True))])
     opts_unset VNone [Expr (Name ''_'')] = ((opts_unset, [OptionsWarning]), Inr VNone)"
proof (intro conjI)
  show "\<not> list_ex bad_option (option_values (opts_unset\<lparr>compact := VBool True\<rparr>))"
    by (simp add: option_values_def opts_unset_def bad_option_def)
  show v: "validate (opts_unset\<lparr>compact := VBool True\<rparr>, []) = (opts_unset, [OptionsWarning])"
    by (simp add: validate_def option_values_def color_values_def opts_unset_def
        unset_options_def)
  have "set_option ''compact'' (VBool True) opts_unset = opts_unset\<lparr>compact := VBool True\<rparr>"
    by (simp add: set_option_def)
  then have "read_options py_eval [''_'' \<mapsto> VNone]
      [Assign (TName ''compact'') [] (Constant (VBool True))] (opts_unset, [])
      = ((opts_unset, [OptionsWarning]), None)"
    by (simp add: option_names_def v)
  moreover have "load_conf opts_unset (Some [Assign (TName ''compact'') [] (Constant (VBool True))])
      = Inr [Assign (TName ''compact'') [] (Constant (VBool True))]"
    by (simp add: load_conf_def opts_unset_def)
  ultimately show "pyquery py_exec py_eval Map.empty
     (Some [Assign (TName ''compact'') [] (Constant (VBool True))])
     opts_unset VNone [Expr (Name ''_'')] = ((opts_unset, [OptionsWarning]), Inr VNone)"
    by (simp add: pyquery_def wrap_input_def run_query_def normalize_output_scalar)
qed

text \<open>
  Claim C3, evaluated on the code. The validation runs inside the loop over the
  statements of the initialization file, once after every assignment: with the two
  lines \<open>compact = "yes"\<close> and \<open>raw = "no"\<close> the options warning is printed twice,
  whatever the option state was before.
\<close>

theorem warning_per_assignment:
  "count_warnings OptionsWarning
     (snd (fst (pyquery py_exec py_eval names
        (Some [Assign (TName ''compact'') [] (Constant (VStr ''yes'')),
               Assign (TName ''raw'') [] (Constant (VStr ''no''))])
        (ops\<lparr>initialize := True\<rparr>) data [Expr (Name ''_'')]))) = 2"
proof -
  let ?sc = "names(''_'' \<mapsto> wrap_input data)"
  let ?conf = "[Assign (TName ''compact'') [] (Constant (VStr ''yes'')),
               Assign (TName ''raw'') [] (Constant (VStr ''no''))]"
  obtain st1 where s1: "validate (set_option ''compact'' (VStr ''yes'') (ops\<lparr>initialize := True\<rparr>), [])
      = (st1, snd (validate (set_option ''compact'' (VStr ''yes'') (ops\<lparr>initialize := True\<rparr>), [])))"
    by (metis prod.collapse)
  let ?p1 = "snd (validate (set_option ''compact'' (VStr ''yes'') (ops\<lparr>initialize := True\<rparr>), []))"
  have c1: "count_warnings OptionsWarning ?p1 = 1"
    by (simp add: validate_eq Let_def set_option_def option_values_def count_warnings_def)
  let ?st2 = "validate (set_option ''raw'' (VStr ''no'') st1, ?p1)"
  have c2: "count_warnings OptionsWarning (snd ?st2) = 2"
    using c1
    by (simp add: validate_eq Let_def set_option_def option_values_def count_warnings_def)
  have r: "read_options py_eval ?sc ?conf (ops\<lparr>initialize := True\<rparr>, []) = (?st2, None)"
    apply (simp add: option_names_def)
    apply (subst s1)
    apply (simp add: option_names_def)
    done
  have "fst (pyquery py_exec py_eval names (Some ?conf) (ops\<lparr>initialize := True\<rparr>) data
          [Expr (Name ''_'')]) = ?st2"
    using r by (simp add: pyquery_def load_conf_def)
  then show ?thesis using c2 by simp
qed

text \<open>
  Claim C4, evaluated on the code. The validation of the colors runs inside the loop over
  the statements of the initialization file, once after every assignment, not once for
  the file. With the two lines \<open>keyname_color = "pink"\<close> and \<open>keyword_color = "purple"\<close>
  the color warning is printed twice; with \<open>keyname_color = "pink"\<close> and
  \<open>keyword_color = "red"\<close> the reset comes before the second line is read, and
  \<open>keyword_color\<close> ends as \<open>red\<close> although a slot of the file is not a color name. Both
  hold whatever the option state was before.
\<close>

theorem color_warning_per_assignment:
  "count_warnings ColorsWarning
     (snd (fst (pyquery py_exec py_eval names
        (Some [Assign (TName ''keyname_color'') [] (Constant (VStr ''pink'')),
               Assign (TName ''keyword_color'') [] (Constant (VStr ''purple''))])
        (ops\<lparr>initialize := True\<rparr>) data [Expr (Name ''_'')]))) = 2 \<and>
   color_values
     (fst (fst (pyquery py_exec py_eval names
        (Some [Assign (TName ''keyname_color'') [] (Constant (VStr ''pink'')),
               Assign (TName ''keyword_color'') [] (Constant (VStr ''red''))])
        (ops\<lparr>initialize := True\<rparr>) data [Expr (Name ''_'')])))
     = [VNone, VStr ''red'', VNone, VNone, VNone, VNone]"
proof -
  let ?sc = "names(''_'' \<mapsto> wrap_input data)"
  let ?ops = "ops\<lparr>initialize := True\<rparr>"
  let ?a1 = "Assign (TName ''keyname_color'') [] (Constant (VStr ''pink'')) :: expr stmt"
  let ?v1 = "validate (set_option ''keyname_color'' (VStr ''pink'') ?ops, [])"
  have bad: "bad_color (VStr ''pink'')" "bad_color (VStr ''purple'')" "\<not> bad_color (VStr ''red'')"
    "\<not> bad_color VNone"
    by (simp_all add: bad_color_def valid_colors_def)
  have cv1: "color_values (fst ?v1) = [VNone, VNone, VNone, VNone, VNone, VNone]"
    using validate_colors_run [of "set_option ''keyname_color'' (VStr ''pink'') ?ops" "[]"]
    by (simp add: set_option_def color_values_def bad)
  have c1: "count_warnings ColorsWarning (snd ?v1) = 1"
    using validate_colors_run [of "set_option ''keyname_color'' (VStr ''pink'') ?ops" "[]"]
    by (simp add: set_option_def color_values_def bad count_warnings_def)
  have step: "read_options py_eval ?sc [?a1, Assign (TName ''keyword_color'') [] (Constant c)]
        (?ops, [])
      = (validate (set_option ''keyword_color'' c (fst ?v1), snd ?v1), None)" for c
    by (simp add: read_options_Assign option_names_def del: read_options.simps(2))
  have cvs: "color_values (set_option ''keyword_color'' c (fst ?v1))
      = [VNone, c, VNone, VNone, VNone, VNone]" for c
    using cv1 by (simp add: set_option_def color_values_def)
  have two: "count_warnings ColorsWarning
      (snd (validate (set_option ''keyword_color'' (VStr ''purple'') (fst ?v1), snd ?v1))) = 2"
    using validate_colors_run [of "set_option ''keyword_color'' (VStr ''purple'') (fst ?v1)" "snd ?v1"]
    by (simp add: cvs bad c1)
  have red: "color_values
      (fst (validate (set_option ''keyword_color'' (VStr ''red'') (fst ?v1), snd ?v1)))
      = [VNone, VStr ''red'', VNone, VNone, VNone, VNone]"
    using validate_colors_run [of "set_option ''keyword_color'' (VStr ''red'') (fst ?v1)" "snd ?v1"]
    by (simp add: cvs bad)
  have fstq: "fst (pyquery py_exec py_eval names
        (Some [?a1, Assign (TName ''keyword_color'') [] (Constant c)]) ?ops data [Expr (Name ''_'')])
      = validate (set_option ''keyword_color'' c (fst ?v1), snd ?v1)" for c
    using step [of c] by (simp add: pyquery_def load_conf_def)
  show ?thesis
    by (simp only: fstq two red)
qed

section \<open>The shape of the script\<close>

text \<open>
  Claim C2 as stated fails, in three ways. A script that consists of the assignment
  \<open>x = 1\<close> does not end in an expression, and the query returns \<open>1\<close>. With the
  initialization file \<open>compact = undefined\<close> and the query \<open>pass\<close> the failure is the
  NameError of line 280, not a shape error. With the file \<open>compact = _\<close> and the query
  \<open>pass\<close> the input has been read when line 330 fails: the option state left behind
  differs with the data.
\<close>

theorem script_shape_counterexample:
  "\<not> is_expression (Assign (TName ''x'') [] (Constant (VInt 1))) \<and>
   pyquery py_exec py_eval Map.empty None (opts_unset\<lparr>initialize := False\<rparr>) VNone
     [Assign (TName ''x'') [] (Constant (VInt 1))]
   = ((opts_unset\<lparr>initialize := False\<rparr>, []), Inr (VInt 1)) \<and>
   \<not> is_expression (NoValue :: expr stmt) \<and>
   pyquery py_exec py_eval Map.empty
     (Some [Assign (TName ''compact'') [] (Name ''undefined'')]) opts_false VNone [NoValue]
   = ((opts_false, []), Inl NameError) \<and>
   pyquery py_exec py_eval Map.empty
     (Some [Assign (TName ''compact'') [] (Name ''_'')]) opts_false (VBool True) [NoValue]
   = ((opts_false\<lparr>compact := VBool True\<rparr>, []), Inl AttributeError) \<and>
   pyquery py_exec py_eval Map.empty
     (Some [Assign (TName ''compact'') [] (Name ''_'')]) opts_false (VInt 5) [NoValue]
   = ((unset_options opts_false, [OptionsWarning]), Inl AttributeError)"
proof (intro conjI)
  show "pyquery py_exec py_eval Map.empty None (opts_unset\<lparr>initialize := False\<rparr>) VNone
     [Assign (TName ''x'') [] (Constant (VInt 1))]
   = ((opts_unset\<lparr>initialize := False\<rparr>, []), Inr (VInt 1))"
    by (simp add: pyquery_def load_conf_def opts_unset_def run_query_def wrap_input_def
        normalize_output_scalar)
  show "pyquery py_exec py_eval Map.empty
     (Some [Assign (TName ''compact'') [] (Name ''undefined'')]) opts_false VNone [NoValue]
   = ((opts_false, []), Inl NameError)"
    by (simp add: pyquery_def load_conf_def opts_false_def option_names_def)
  show "pyquery py_exec py_eval Map.empty
     (Some [Assign (TName ''compact'') [] (Name ''_'')]) opts_false (VBool True) [NoValue]
   = ((opts_false\<lparr>compact := VBool True\<rparr>, []), Inl AttributeError)"
    by (simp add: pyquery_def load_conf_def opts_false_def option_names_def set_option_def
        wrap_input_def validate_def option_values_def color_values_def run_query_def)
  show "pyquery py_exec py_eval Map.empty
     (Some [Assign (TName ''compact'') [] (Name ''_'')]) opts_false (VInt 5) [NoValue]
   = ((unset_options opts_false, [OptionsWarning]), Inl AttributeError)"
    by (simp add: pyquery_def load_conf_def opts_false_def option_names_def set_option_def
        wrap_input_def validate_def option_values_def color_values_def run_query_def
        unset_options_def)
qed simp_all

text \<open>
  Claim C2, amended. Take a script whose last node has no value (any statement but an
  expression statement, an assignment, an augmented or annotated assignment and a
  return). Without an initialization file the query fails with the AttributeError of
  line 330 whatever the executor, the evaluator, the visible names and the data are:
  no statement has been executed and the data has not been read. With an initialization
  file (its statements followed by those of the query) the options of the file are read
  first; an exception raised there is the result, and otherwise the result is the same
  AttributeError, for every executor. A script whose last node is an assignment is not
  rejected: once the options are read it runs as if it ended in the right-hand side of
  that assignment.
\<close>

theorem last_node_without_value:
  assumes "load_conf ops conf_file = Inr jelloconf" and "jelloconf @ query \<noteq> []"
  shows "(node_value (last (jelloconf @ query)) = None \<and> jelloconf = [] \<longrightarrow>
            (\<forall>ex' ev' names' data'.
               pyquery ex' ev' names' conf_file ops data' query
                 = ((ops, []), Inl AttributeError)) \<and>
            shape_error AttributeError) \<and>
         (node_value (last (jelloconf @ query)) = None \<longrightarrow>
            (\<forall>ex'. pyquery ex' ev names conf_file ops data query =
               (case read_options ev (names(''_'' \<mapsto> wrap_input data)) jelloconf (ops, []) of
                  (st, Some err) \<Rightarrow> (st, Inl err)
                | (st, None) \<Rightarrow> (st, Inl AttributeError)))) \<and>
         (\<forall>t ts e. last (jelloconf @ query) = Assign t ts e \<longrightarrow>
            pyquery ex ev names conf_file ops data query =
              (case read_options ev (names(''_'' \<mapsto> wrap_input data)) jelloconf (ops, []) of
                 (st, Some err) \<Rightarrow> (st, Inl err)
               | (st, None) \<Rightarrow>
                   (st, run_query ex ev (names(''_'' \<mapsto> wrap_input data))
                          (butlast (jelloconf @ query) @ [Expr e]))))"
proof (intro conjI impI allI)
  fix ex' :: "'a executor" and ev' :: "'a evaluator" and names' data'
  assume "node_value (last (jelloconf @ query)) = None \<and> jelloconf = []"
  then show "pyquery ex' ev' names' conf_file ops data' query = ((ops, []), Inl AttributeError)"
    using assms by (simp add: pyquery_def run_query_def)
next
  show "shape_error AttributeError" by simp
next
  fix ex' :: "'a executor"
  assume "node_value (last (jelloconf @ query)) = None"
  then show "pyquery ex' ev names conf_file ops data query =
      (case read_options ev (names(''_'' \<mapsto> wrap_input data)) jelloconf (ops, []) of
         (st, Some err) \<Rightarrow> (st, Inl err)
       | (st, None) \<Rightarrow> (st, Inl AttributeError))"
    using assms by (auto simp: pyquery_def run_query_def split: prod.splits option.splits)
next
  fix t ts e
  assume "last (jelloconf @ query) = Assign t ts e"
  then show "pyquery ex ev names conf_file ops data query =
      (case read_options ev (names(''_'' \<mapsto> wrap_input data)) jelloconf (ops, []) of
         (st, Some err) \<Rightarrow> (st, Inl err)
       | (st, None) \<Rightarrow>
           (st, run_query ex ev (names(''_'' \<mapsto> wrap_input data))
                  (butlast (jelloconf @ query) @ [Expr e])))"
    using assms by (auto simp: pyquery_def run_query_def split: prod.splits option.splits)
qed

theorem last_node_without_value_witness:
  "pyquery py_exec py_eval Map.empty None (opts_unset\<lparr>initialize := False\<rparr>) (VInt 7)
     [Expr (Name ''_''), NoValue]
   = ((opts_unset\<lparr>initialize := False\<rparr>, []), Inl AttributeError) \<and>
   pyquery py_exec py_eval Map.empty
     (Some [Assign (TName ''compact'') [] (Constant (VBool True))]) opts_false (VInt 7) [NoValue]
   = ((opts_false\<lparr>compact := VBool True\<rparr>, []), Inl AttributeError)"
proof
  show "pyquery py_exec py_eval Map.empty None (opts_unset\<lparr>initialize := False\<rparr>) (VInt 7)
     [Expr (Name ''_''), NoValue]
   = ((opts_unset\<lparr>initialize := False\<rparr>, []), Inl AttributeError)"
    using last_node_without_value [of "opts_unset\<lparr>initialize := False\<rparr>" None "[]"
        "[Expr (Name ''_''), NoValue]" py_eval Map.empty "VInt 7" py_exec]
    by (simp add: load_conf_def opts_unset_def)
  let ?conf = "[Assign (TName ''compact'') [] (Constant (VBool True))] :: expr stmt list"
  have r: "read_options py_eval [''_'' \<mapsto> wrap_input (VInt 7)] ?conf (opts_false, [])
      = ((opts_false\<lparr>compact := VBool True\<rparr>, []), None)"
    by (simp add: option_names_def set_option_def opts_false_def validate_def
        option_values_def color_values_def)
  have lc: "load_conf opts_false (Some ?conf) = Inr ?conf"
    by (simp add: load_conf_def opts_false_def)
  have ne: "?conf @ [NoValue] \<noteq> []"
    by simp
  have nv: "node_value (last (?conf @ [NoValue])) = None"
    by simp
  have "\<forall>ex'. pyquery ex' py_eval Map.empty (Some ?conf) opts_false (VInt 7) [NoValue] =
      (case read_options py_eval [''_'' \<mapsto> wrap_input (VInt 7)] ?conf (opts_false, []) of
         (st, Some err) \<Rightarrow> (st, Inl err)
       | (st, None) \<Rightarrow> (st, Inl AttributeError))"
    using last_node_without_value [where ev = py_eval and names = Map.empty
        and data = "VInt 7" and ex = py_exec, OF lc ne] nv
    by blast
  then have "pyquery py_exec py_eval Map.empty (Some ?conf) opts_false (VInt 7) [NoValue] =
      (case read_options py_eval [''_'' \<mapsto> wrap_input (VInt 7)] ?conf (opts_false, []) of
         (st, Some err) \<Rightarrow> (st, Inl err)
       | (st, None) \<Rightarrow> (st, Inl AttributeError))"
    by blast
  then show "pyquery py_exec py_eval Map.empty
     (Some [Assign (TName ''compact'') [] (Constant (VBool True))]) opts_false (VInt 7) [NoValue]
   = ((opts_false\<lparr>compact := VBool True\<rparr>, []), Inl AttributeError)"
    unfolding r by simp
qed

end
